theory Spec2Isabelle
  imports Main "HOL-Library.List_Lexorder"
begin

section \<open>Strings\<close>

text \<open>
  A Python string is the list of its code points, which are integers. \<open>ascii\<close> writes a string of ASCII
  characters as such a list. \<open>str.strip()\<close> removes the characters for which
  \<open>str.isspace\<close> holds: U+0009..U+000D, U+001C..U+0020, U+0085, U+00A0, U+1680,
  U+2000..U+200A, U+2028, U+2029, U+202F, U+205F and U+3000. The class \<open>\d\<close> of \<open>re\<close> is
  modelled as \<open>0\<close>..\<open>9\<close>; strings are taken to contain no decimal digit of another script
  (the first of them is U+0660).
\<close>

type_synonym str = "int list"

definition ascii :: "string \<Rightarrow> str" where
  "ascii s = map of_char s"

definition py_isspace :: "int \<Rightarrow> bool" where
  "py_isspace n =
     ((9 \<le> n \<and> n \<le> 13) \<or> (28 \<le> n \<and> n \<le> 32) \<or> n = 133 \<or> n = 160 \<or> n = 5760
      \<or> (8192 \<le> n \<and> n \<le> 8202) \<or> n = 8232 \<or> n = 8233 \<or> n = 8239 \<or> n = 8287
      \<or> n = 12288)"

definition strip :: "str \<Rightarrow> str" where
  "strip s = rev (dropWhile py_isspace (rev (dropWhile py_isspace s)))"

definition is_digit :: "int \<Rightarrow> bool" where
  "is_digit n = (48 \<le> n \<and> n \<le> 57)"

text \<open>\<open>re.match(r'(\d{2}/\d{2})', date)\<close>: the pattern is anchored at the start of the
  string; the result is group 1 of the match, or \<open>None\<close>. The slash is code point 47.\<close>

fun date_match :: "str \<Rightarrow> str option" where
  "date_match (a # b # c # d # e # rest) =
     (if is_digit a \<and> is_digit b \<and> c = 47 \<and> is_digit d \<and> is_digit e
      then Some [a, b, c, d, e] else None)"
| "date_match _ = None"

section \<open>Predictions and their fingerprint (main.py)\<close>

text \<open>
  A prediction is the dictionary built by the scraper; it always carries every key, each
  with a string value, so \<open>prediction_data.get(k, '')\<close> is the field itself.
\<close>

record prediction =
  bookmaker :: str
  sport :: str
  date :: str
  tournament :: str
  teams :: str
  prediction_text :: str
  odd :: str
  val :: str

definition get_match_key :: "prediction \<Rightarrow> str" where
  "get_match_key prediction_data =
     (let bookmaker' = strip (bookmaker prediction_data);
          sport' = strip (sport prediction_data);
          date' = strip (date prediction_data);
          teams' = strip (teams prediction_data);
          date_short = (case date_match date' of Some g \<Rightarrow> g | None \<Rightarrow> date')
      in sport' @ ascii ''|'' @ date_short @ ascii ''|'' @ teams')"

text \<open>The words of the specification for the date part of the fingerprint: a string has a
  leading two-digits-slash-two-digits prefix when its first five characters have that
  shape.\<close>

definition has_date_prefix :: "str \<Rightarrow> bool" where
  "has_date_prefix s =
     (5 \<le> length s \<and> is_digit (s ! 0) \<and> is_digit (s ! 1) \<and> s ! 2 = 47 \<and>
      is_digit (s ! 3) \<and> is_digit (s ! 4))"

definition date_prefix :: "str \<Rightarrow> str" where
  "date_prefix s = (if has_date_prefix s then take 5 s else s)"

section \<open>The store (database.py)\<close>

text \<open>
  Every table is the list of its rows in insertion order. Timestamps are instants in
  seconds on one clock (\<open>int\<close>); a nullable column is an \<open>option\<close>. The offset between the
  local time of \<open>datetime.now()\<close> and the UTC time of SQLite is not modelled: \<open>now\<close> is the
  reading of the one clock at the moment of the call.

  The store keeps timestamps as text in two formats. SQLite writes and computes
  \<open>YYYY-MM-DD HH:MM:SS\<close> (\<open>CURRENT_TIMESTAMP\<close>, \<open>datetime("now")\<close>); two such texts compare
  as their instants do. \<open>end_date\<close> and \<open>pause_until\<close> are written by Python as
  \<open>isoformat()\<close> text, \<open>YYYY-MM-DDTHH:MM:SS\<close>. Where SQL compares an \<open>isoformat\<close> text with
  \<open>datetime("now")\<close>, the calendar days decide, and on the same day the \<open>isoformat\<close> text is
  the greater, its \<open>T\<close> being above the blank. Years have four digits.
\<close>

definition day_of :: "int \<Rightarrow> int" where
  "day_of t = t div 86400"

text \<open>SQL \<open>iso > datetime("now")\<close> and SQL \<open>iso < datetime("now")\<close> for an \<open>isoformat\<close>
  text of instant \<open>t\<close>.\<close>

definition iso_after_sql :: "int \<Rightarrow> int \<Rightarrow> bool" where
  "iso_after_sql t now = (day_of now \<le> day_of t)"

definition iso_before_sql :: "int \<Rightarrow> int \<Rightarrow> bool" where
  "iso_before_sql t now = (day_of t < day_of now)"

record user =
  user_id :: int
  username :: "str option"
  is_admin :: bool
  end_date :: "int option"
  is_paused :: bool
  pause_until :: "int option"

record bookmaker_row =
  bk_id :: int
  bk_name :: str
  bk_is_active :: bool

record channel =
  channel_id :: int
  channel_name :: str
  channel_is_active :: bool
  created_at :: int

record signal_limits_row =
  max_signals_per_day :: int
  pause_after_signals :: int
  pause_duration_hours :: int

record database =
  users :: "user list"
  sent_predictions :: "(str \<times> int) list"
  user_predictions :: "(int \<times> str \<times> int) list"
  bookmakers :: "bookmaker_row list"
  user_bookmakers :: "(int \<times> int) list"
  channels :: "channel list"
  channel_bookmakers :: "(int \<times> int \<times> bool) list"
  signal_limits :: "signal_limits_row list"

subsection \<open>Users\<close>

text \<open>\<open>INSERT OR IGNORE INTO users (user_id, username, is_admin)\<close>: \<open>user_id\<close> is the
  primary key, so the statement does nothing when a row with that key exists; a new row
  takes the column defaults (no end date, not paused).\<close>

definition add_user :: "database \<Rightarrow> int \<Rightarrow> str option \<Rightarrow> bool \<Rightarrow> database" where
  "add_user d uid uname adm =
     (if uid \<in> set (map user_id (users d)) then d
      else d\<lparr>users := users d @
             [\<lparr>user_id = uid, username = uname, is_admin = adm, end_date = None,
               is_paused = False, pause_until = None\<rparr>]\<rparr>)"

definition get_user :: "database \<Rightarrow> int \<Rightarrow> user option" where
  "get_user d uid = find (\<lambda>u. user_id u = uid) (users d)"

text \<open>\<open>SELECT * FROM users WHERE end_date > datetime("now") AND is_paused = FALSE\<close>:
  \<open>end_date\<close> is \<open>isoformat\<close> text and a \<open>NULL\<close> end date fails the comparison; the rows
  come in the order of the integer primary key.\<close>

definition get_all_active_users :: "database \<Rightarrow> int \<Rightarrow> user list" where
  "get_all_active_users d now =
     sort_key user_id
       (filter (\<lambda>u. (case end_date u of None \<Rightarrow> False | Some e \<Rightarrow> iso_after_sql e now)
                     \<and> \<not> is_paused u)
          (users d))"

definition unpause_subscription :: "database \<Rightarrow> int \<Rightarrow> database" where
  "unpause_subscription d uid =
     d\<lparr>users := map (\<lambda>u. if user_id u = uid then u\<lparr>is_paused := False\<rparr> else u) (users d)\<rparr>"

subsection \<open>Sent-prediction ledger and per-user ledger\<close>

text \<open>\<open>INSERT OR IGNORE INTO sent_predictions (prediction_key)\<close>: the key is the primary
  key; a new row is stamped with the current time.\<close>

definition add_sent_prediction :: "database \<Rightarrow> int \<Rightarrow> str \<Rightarrow> database" where
  "add_sent_prediction d now prediction_key =
     (if prediction_key \<in> set (map fst (sent_predictions d)) then d
      else d\<lparr>sent_predictions := sent_predictions d @ [(prediction_key, now)]\<rparr>)"

text \<open>\<open>SELECT COUNT(*) FROM sent_predictions WHERE prediction_key = ?\<close>, compared with 0.\<close>

definition is_prediction_sent :: "database \<Rightarrow> str \<Rightarrow> bool" where
  "is_prediction_sent d prediction_key =
     (0 < length (filter (\<lambda>r. fst r = prediction_key) (sent_predictions d)))"

definition seven_days :: int where
  "seven_days = 7 * 86400"

text \<open>\<open>DELETE FROM sent_predictions WHERE sent_at < datetime("now", "-7 days")\<close>.\<close>

definition delete_old_predictions :: "database \<Rightarrow> int \<Rightarrow> database" where
  "delete_old_predictions d now =
     d\<lparr>sent_predictions := filter (\<lambda>r. \<not> snd r < now - seven_days) (sent_predictions d)\<rparr>"

definition add_user_prediction :: "database \<Rightarrow> int \<Rightarrow> int \<Rightarrow> str \<Rightarrow> database" where
  "add_user_prediction d now uid prediction_key =
     d\<lparr>user_predictions := user_predictions d @ [(uid, prediction_key, now)]\<rparr>"

text \<open>\<open>SELECT COUNT(*) FROM user_predictions WHERE user_id = ? AND
  date(sent_at) = date('now')\<close>.\<close>

definition get_user_daily_signal_count :: "database \<Rightarrow> int \<Rightarrow> int \<Rightarrow> int" where
  "get_user_daily_signal_count d now uid =
     int (length (filter (\<lambda>(u, k, sent_at). u = uid \<and> day_of sent_at = day_of now)
                    (user_predictions d)))"

subsection \<open>Pause\<close>

text \<open>\<open>pause_until = datetime.now() + timedelta(hours=hours)\<close>, then
  \<open>UPDATE users SET is_paused = TRUE, pause_until = ? WHERE user_id = ?\<close>. The range of
  \<open>datetime\<close> is taken as unbounded.\<close>

definition set_user_pause :: "database \<Rightarrow> int \<Rightarrow> int \<Rightarrow> int \<Rightarrow> database" where
  "set_user_pause d now uid hours =
     d\<lparr>users := map (\<lambda>u. if user_id u = uid
                           then u\<lparr>is_paused := True, pause_until := Some (now + hours * 3600)\<rparr>
                           else u) (users d)\<rparr>"

text \<open>\<open>is_user_paused\<close> returns its answer and, through \<open>unpause_subscription\<close>, may write
  the store: the result is the pair of both. Its comparison is one of Python \<open>datetime\<close>
  values, by instant.\<close>

definition is_user_paused :: "database \<Rightarrow> int \<Rightarrow> int \<Rightarrow> bool \<times> database" where
  "is_user_paused d now uid =
     (case get_user d uid of
        None \<Rightarrow> (False, d)
      | Some result \<Rightarrow>
          if \<not> is_paused result then (False, d)
          else (case pause_until result of
                  Some pu \<Rightarrow> if pu < now then (False, unpause_subscription d uid) else (True, d)
                | None \<Rightarrow> (True, d)))"

text \<open>\<open>UPDATE users SET is_paused = FALSE WHERE pause_until < datetime("now")\<close>:
  \<open>pause_until\<close> is \<open>isoformat\<close> text.\<close>

definition check_and_resume_users :: "database \<Rightarrow> int \<Rightarrow> database" where
  "check_and_resume_users d now =
     d\<lparr>users := map (\<lambda>u. case pause_until u of
                             Some pu \<Rightarrow> if iso_before_sql pu now then u\<lparr>is_paused := False\<rparr>
                                        else u
                           | None \<Rightarrow> u) (users d)\<rparr>"

subsection \<open>Bookmaker preferences\<close>

text \<open>\<open>SELECT b.* FROM bookmakers b JOIN user_bookmakers ub ON b.id = ub.bookmaker_id
  WHERE ub.user_id = ? AND b.is_active = TRUE\<close>.\<close>

definition get_user_bookmakers :: "database \<Rightarrow> int \<Rightarrow> bookmaker_row list" where
  "get_user_bookmakers d uid =
     [b. b \<leftarrow> bookmakers d, ub \<leftarrow> user_bookmakers d,
         bk_id b = snd ub, fst ub = uid, bk_is_active b]"

text \<open>\<open>DELETE FROM user_bookmakers WHERE user_id = ?\<close>, then one \<open>INSERT\<close> per id.\<close>

definition update_user_bookmakers :: "database \<Rightarrow> int \<Rightarrow> int list \<Rightarrow> database" where
  "update_user_bookmakers d uid bookmaker_ids =
     d\<lparr>user_bookmakers := filter (\<lambda>ub. fst ub \<noteq> uid) (user_bookmakers d)
                             @ map (\<lambda>b. (uid, b)) bookmaker_ids\<rparr>"

text \<open>\<open>SELECT b.*, cb.is_selected FROM bookmakers b JOIN channel_bookmakers cb
  ON b.id = cb.bookmaker_id WHERE cb.channel_id = ? AND b.is_active = TRUE ORDER BY b.name\<close>:
  each result row is a bookmaker with the \<open>is_selected\<close> flag of the link. The order of the
  default collation is that of the code points.\<close>

definition get_channel_bookmakers :: "database \<Rightarrow> int \<Rightarrow> (bookmaker_row \<times> bool) list" where
  "get_channel_bookmakers d cid =
     sort_key (\<lambda>r. bk_name (fst r))
       [(b, is_selected). b \<leftarrow> bookmakers d, (c, bid, is_selected) \<leftarrow> channel_bookmakers d,
          bk_id b = bid, c = cid, bk_is_active b]"

subsection \<open>Channels and signal limits\<close>

text \<open>\<open>SELECT * FROM channels ORDER BY name\<close>; channels of one name come in the order of
  the integer primary key.\<close>

definition get_all_channels :: "database \<Rightarrow> channel list" where
  "get_all_channels d = sort_key channel_name (sort_key channel_id (channels d))"

text \<open>\<open>SELECT * FROM signal_limits ORDER BY id DESC LIMIT 1\<close>: the row inserted last, or
  the built-in defaults when the table is empty.\<close>

definition get_signal_limits :: "database \<Rightarrow> signal_limits_row" where
  "get_signal_limits d =
     (if signal_limits d = []
      then \<lparr>max_signals_per_day = 10, pause_after_signals = 5, pause_duration_hours = 24\<rparr>
      else last (signal_limits d))"

section \<open>The message transport\<close>

text \<open>
  The Telegram client is outside the program. It is a parameter of the model: what the
  \<open>n\<close>-th call of the run answers for a chat, so that a second call for the same chat may
  answer differently from the first. main.py imports \<open>aiogram.enums\<close>, \<open>aiogram.fsm\<close> and
  \<open>aiogram.filters\<close>, which exist from aiogram 3 on; the exceptions the client raises are
  those of that version, of which \<open>TelegramRetryAfter\<close> carries the seconds to wait.
\<close>

datatype tg_error =
  TelegramRetryAfter nat | TelegramForbiddenError | TelegramBadRequest | TelegramNetworkError

datatype member_status = Creator | Administrator | Member | Restricted | Left | Kicked

record chat_member =
  status :: member_status
  can_post_messages :: bool

record bot =
  send_message :: "nat \<Rightarrow> int \<Rightarrow> tg_error option"
  get_chat_member :: "nat \<Rightarrow> int \<Rightarrow> tg_error + chat_member"

text \<open>
  The state a pass works on: the store, the clock, the number of transport calls made so
  far, and the log of every \<open>send_message\<close> call for a prediction (chat, prediction, result;
  \<open>None\<close> is a delivery). The text of the message is a function of the prediction alone
  (main.py 255-290), so the log keeps the prediction. Time passes only in
  \<open>asyncio.sleep\<close>.
\<close>

record world =
  db :: database
  clock :: int
  api_calls :: nat
  attempts :: "(int \<times> prediction \<times> tg_error option) list"

definition bot_send :: "bot \<Rightarrow> world \<Rightarrow> int \<Rightarrow> prediction \<Rightarrow> tg_error option \<times> world" where
  "bot_send b w chat p =
     (let r = send_message b (api_calls w) chat
      in (r, w\<lparr>api_calls := Suc (api_calls w), attempts := attempts w @ [(chat, p, r)]\<rparr>))"

definition bot_get_chat_member :: "bot \<Rightarrow> world \<Rightarrow> int \<Rightarrow> (tg_error + chat_member) \<times> world" where
  "bot_get_chat_member b w chat =
     (get_chat_member b (api_calls w) chat, w\<lparr>api_calls := Suc (api_calls w)\<rparr>)"

definition sleep :: "world \<Rightarrow> nat \<Rightarrow> world" where
  "sleep w n = w\<lparr>clock := clock w + int n\<rparr>"

section \<open>The distribution engine (main.py)\<close>

text \<open>
  The handlers of main.py 343-365 and 437-440 name \<open>exceptions.ChatNotFound\<close>,
  \<open>exceptions.BotKicked\<close>, \<open>exceptions.ChatWriteForbidden\<close>, \<open>exceptions.RetryAfter\<close>,
  \<open>exceptions.BotBlocked\<close> and \<open>exceptions.UserDeactivated\<close>. The module
  \<open>aiogram.exceptions\<close> of aiogram 3 defines none of these names. Python evaluates the class
  expression of an \<open>except\<close> clause when an exception reaches the clause, so the first clause
  of each \<open>try\<close> raises \<open>AttributeError\<close> in place of handling; an exception raised by a
  clause is not offered to the later clauses of the same \<open>try\<close>. Every exception of the
  transport therefore leaves \<open>send_prediction_to_user_and_channel\<close> as an
  \<open>AttributeError\<close>: no channel is deactivated, nothing sleeps, nothing is sent again, and
  the recipients not yet visited are not visited.
\<close>

datatype py_error = AttributeError

text \<open>What one recipient's step did: delivered, skipped, counted an error, or raised.\<close>

datatype outcome = Sent | Skipped | Errored | Raised

record tally =
  sent :: nat
  skipped :: nat
  errors :: nat

definition no_tally :: tally where
  "no_tally = \<lparr>sent = 0, skipped = 0, errors = 0\<rparr>"

text \<open>The counters \<open>channel_sent\<close>, \<open>channel_skipped\<close>, \<open>channel_errors\<close> and their
  namesakes for users; a step that raised counts nothing.\<close>

fun count :: "outcome \<Rightarrow> tally \<Rightarrow> tally" where
  "count Sent t = t\<lparr>sent := sent t + 1\<rparr>"
| "count Skipped t = t\<lparr>skipped := skipped t + 1\<rparr>"
| "count Errored t = t\<lparr>errors := errors t + 1\<rparr>"
| "count Raised t = t"

subsection \<open>One channel (main.py 310-378)\<close>

text \<open>The body of the loop: an inactive channel is skipped; so is a channel the names of
  whose active and selected bookmakers are not empty and do not contain the bookmaker of the
  prediction (main.py 321-327). Then the permission check: a bot that is no administrator
  or may not post is an error. Then the send. An exception of either call raises.\<close>

definition send_to_channel :: "bot \<Rightarrow> prediction \<Rightarrow> world \<Rightarrow> channel \<Rightarrow> outcome \<times> world" where
  "send_to_channel b p w ch =
     (let cid = channel_id ch; bookmaker_name = strip (bookmaker p)
      in if \<not> channel_is_active ch then (Skipped, w)
         else let channel_bookmakers = get_channel_bookmakers (db w) cid;
                  channel_bk_names = map (\<lambda>r. bk_name (fst r)) (filter snd channel_bookmakers)
              in if channel_bk_names \<noteq> [] \<and> bookmaker_name \<notin> set channel_bk_names
                 then (Skipped, w)
                 else (case bot_get_chat_member b w cid of
                         (Inl e, w1) \<Rightarrow> (Raised, w1)
                       | (Inr member, w1) \<Rightarrow>
                           if status member \<noteq> Administrator then (Errored, w1)
                           else if \<not> can_post_messages member then (Errored, w1)
                           else (case bot_send b w1 cid p of
                                   (None, w2) \<Rightarrow> (Sent, w2)
                                 | (Some e, w2) \<Rightarrow> (Raised, w2))))"

fun channel_loop :: "bot \<Rightarrow> prediction \<Rightarrow> channel list \<Rightarrow> tally \<Rightarrow> world
    \<Rightarrow> (py_error + tally) \<times> world" where
  "channel_loop b p [] t w = (Inr t, w)"
| "channel_loop b p (ch # rest) t w =
     (case send_to_channel b p w ch of
        (out, w') \<Rightarrow> if out = Raised then (Inl AttributeError, w')
                     else channel_loop b p rest (count out t) w')"

subsection \<open>One user (main.py 399-445)\<close>

text \<open>The body of the loop: a paused user is skipped, a user at the daily limit is
  skipped, and so is a user whose active preferred bookmakers are not none and do not
  contain the bookmaker of the prediction (main.py 416-422). After a delivery the ledger row
  is written and, if the count of the day has reached \<open>pause_after_signals\<close>, the pause is
  set. An exception of the send raises.\<close>

definition send_to_user :: "bot \<Rightarrow> prediction \<Rightarrow> signal_limits_row \<Rightarrow> world \<Rightarrow> user
    \<Rightarrow> outcome \<times> world" where
  "send_to_user b p limits w u =
     (let uid = user_id u; bookmaker_name = strip (bookmaker p);
          prediction_key = get_match_key p;
          (paused, d1) = is_user_paused (db w) (clock w) uid;
          w1 = w\<lparr>db := d1\<rparr>
      in if paused then (Skipped, w1)
         else let daily_count = get_user_daily_signal_count (db w1) (clock w1) uid
              in if daily_count \<ge> max_signals_per_day limits then (Skipped, w1)
                 else let user_bookmakers = get_user_bookmakers (db w1) uid
                      in if user_bookmakers \<noteq> []
                            \<and> bookmaker_name \<notin> set (map bk_name user_bookmakers)
                         then (Skipped, w1)
                         else (case bot_send b w1 uid p of
                                 (None, w2) \<Rightarrow>
                                   let d2 = add_user_prediction (db w2) (clock w2) uid
                                              prediction_key;
                                       new_daily_count = daily_count + 1;
                                       d3 = (if new_daily_count \<ge> pause_after_signals limits
                                             then set_user_pause d2 (clock w2) uid
                                                    (pause_duration_hours limits)
                                             else d2)
                                   in (Sent, w2\<lparr>db := d3\<rparr>)
                               | (Some e, w2) \<Rightarrow> (Raised, w2)))"

fun user_loop :: "bot \<Rightarrow> prediction \<Rightarrow> signal_limits_row \<Rightarrow> user list \<Rightarrow> tally \<Rightarrow> world
    \<Rightarrow> (py_error + tally) \<times> world" where
  "user_loop b p limits [] t w = (Inr t, w)"
| "user_loop b p limits (u # rest) t w =
     (case send_to_user b p limits w u of
        (out, w') \<Rightarrow> if out = Raised then (Inl AttributeError, w')
                     else user_loop b p limits rest (count out t) w')"

subsection \<open>One prediction (main.py 254-457)\<close>

text \<open>
  \<open>schedule_next_run\<close> re-arms the scheduler job and may report to the administrator; it
  reads the settings table, writes no table and sends no prediction, and its own handler
  catches what it raises: it is left out. The store does not fail. The function returns
  \<open>None\<close> with the new state, or the exception that left it with the state reached.
\<close>

definition send_prediction_to_user_and_channel :: "bot \<Rightarrow> world \<Rightarrow> prediction
    \<Rightarrow> py_error option \<times> world" where
  "send_prediction_to_user_and_channel b w p =
     (let bookmaker_name = strip (bookmaker p); prediction_key = get_match_key p
      in if bookmaker_name = [] then (None, w)
         else (case channel_loop b p (get_all_channels (db w)) no_tally w of
                 (Inl e, w1) \<Rightarrow> (Some e, w1)
               | (Inr channel_tally, w1) \<Rightarrow>
                   let users = get_all_active_users (db w1) (clock w1)
                   in if users = [] then (None, w1)
                      else let limits = get_signal_limits (db w1)
                           in (case user_loop b p limits users no_tally w1 of
                                 (Inl e, w2) \<Rightarrow> (Some e, w2)
                               | (Inr user_tally, w2) \<Rightarrow>
                                   if sent channel_tally > 0 \<or> sent user_tally > 0
                                   then (None, w2\<lparr>db := add_sent_prediction (db w2) (clock w2)
                                                          prediction_key\<rparr>)
                                   else (None, w2))))"

subsection \<open>One pass (main.py 170-250)\<close>

text \<open>
  The pass from the scraper's answer on: \<open>None\<close> (also when the scraper could not be
  initialised) and the empty list end the pass. \<open>_filter_and_clean_prediction\<close> returns its
  argument. The first loop queues every prediction whose key is not in the ledger. The
  second loop sends each queued prediction and then, in the same \<open>try\<close>, records its key
  and sleeps one second; when the send raised, the handler logs and goes on to the next
  queued prediction.
\<close>

definition new_predictions_to_send :: "database \<Rightarrow> prediction list \<Rightarrow> (str \<times> prediction) list" where
  "new_predictions_to_send d predictions =
     map (\<lambda>p. (get_match_key p, p))
       (filter (\<lambda>p. \<not> is_prediction_sent d (get_match_key p)) predictions)"

definition send_one :: "bot \<Rightarrow> world \<Rightarrow> str \<times> prediction \<Rightarrow> world" where
  "send_one b w kp =
     (case send_prediction_to_user_and_channel b w (snd kp) of
        (Some e, w1) \<Rightarrow> w1
      | (None, w1) \<Rightarrow>
          sleep (w1\<lparr>db := add_sent_prediction (db w1) (clock w1) (fst kp)\<rparr>) 1)"

fun send_queued :: "bot \<Rightarrow> (str \<times> prediction) list \<Rightarrow> world \<Rightarrow> world" where
  "send_queued b [] w = w"
| "send_queued b (kp # rest) w = send_queued b rest (send_one b w kp)"

definition send_predictions_to_subscribed_users :: "bot \<Rightarrow> world \<Rightarrow> prediction list option
    \<Rightarrow> world" where
  "send_predictions_to_subscribed_users b w predictions =
     (case predictions of
        None \<Rightarrow> w
      | Some ps \<Rightarrow> if ps = [] then w else send_queued b (new_predictions_to_send (db w) ps) w)"

section \<open>Notions of the specification and concrete stores\<close>

text \<open>The same state with the preference rows of one user deleted.\<close>

definition clear_user_bookmakers :: "int \<Rightarrow> world \<Rightarrow> world" where
  "clear_user_bookmakers uid w = w\<lparr>db := update_user_bookmakers (db w) uid []\<rparr>"

text \<open>The sends made between two states of a run, and the statement that a run from \<open>w\<close>
  to \<open>w'\<close> only added sends, each for a prediction that satisfies \<open>P\<close>.\<close>

definition attempts_since :: "world \<Rightarrow> world \<Rightarrow> (int \<times> prediction \<times> tg_error option) list" where
  "attempts_since w w' = drop (length (attempts w)) (attempts w')"

definition extends_with :: "(prediction \<Rightarrow> bool) \<Rightarrow> world \<Rightarrow> world \<Rightarrow> bool" where
  "extends_with P w w' =
     (take (length (attempts w)) (attempts w') = attempts w
      \<and> list_all (\<lambda>a. P (fst (snd a))) (attempts_since w w'))"

text \<open>The names of the bookmakers a recipient's preference rows reference, active or not
  (for a channel: the rows with \<open>is_selected\<close>), and whether one of them is active.\<close>

definition user_preference_names :: "database \<Rightarrow> int \<Rightarrow> str list" where
  "user_preference_names d uid =
     [bk_name b. b \<leftarrow> bookmakers d, ub \<leftarrow> user_bookmakers d, bk_id b = snd ub, fst ub = uid]"

definition channel_preference_names :: "database \<Rightarrow> int \<Rightarrow> str list" where
  "channel_preference_names d cid =
     [bk_name b. b \<leftarrow> bookmakers d, (c, bid, is_selected) \<leftarrow> channel_bookmakers d,
                 bk_id b = bid, c = cid, is_selected]"

definition user_has_active_preference :: "database \<Rightarrow> int \<Rightarrow> bool" where
  "user_has_active_preference d uid =
     (\<exists>b \<in> set (bookmakers d). bk_is_active b \<and> (uid, bk_id b) \<in> set (user_bookmakers d))"

definition channel_has_active_preference :: "database \<Rightarrow> int \<Rightarrow> bool" where
  "channel_has_active_preference d cid =
     (\<exists>b \<in> set (bookmakers d).
        bk_is_active b \<and> (cid, bk_id b, True) \<in> set (channel_bookmakers d))"

text \<open>A transport on which every call succeeds, the bot being an administrator with the
  right to post.\<close>

definition bot_ok :: bot where
  "bot_ok = \<lparr>send_message = (\<lambda>n chat. None),
             get_chat_member =
               (\<lambda>n chat. Inr \<lparr>status = Administrator, can_post_messages = True\<rparr>)\<rparr>"

text \<open>A transport whose call number \<open>k\<close> of the run, if it is a send, is answered
  "retry after 5 seconds"; every other call succeeds.\<close>

definition bot_rate_limited :: "nat \<Rightarrow> bot" where
  "bot_rate_limited k =
     bot_ok\<lparr>send_message := (\<lambda>n chat. if n = k then Some (TelegramRetryAfter 5) else None)\<rparr>"

definition match_key :: str where
  "match_key = ascii ''Football|12/05|Team A - Team B''"

definition match_fonbet :: prediction where
  "match_fonbet =
     \<lparr>bookmaker = ascii ''Fonbet'', sport = ascii ''Football'', date = ascii ''12/05 18:30'',
      tournament = ascii ''Cup'', teams = ascii ''Team A - Team B'',
      prediction_text = ascii ''1'', odd = ascii ''1.9'', val = ascii ''5''\<rparr>"

definition match_winline :: prediction where
  "match_winline = match_fonbet\<lparr>bookmaker := ascii ''Winline''\<rparr>"

definition db_empty :: database where
  "db_empty =
     \<lparr>users = [], sent_predictions = [], user_predictions = [], bookmakers = [],
      user_bookmakers = [], channels = [], channel_bookmakers = [], signal_limits = []\<rparr>"

definition subscriber :: user where
  "subscriber = \<lparr>user_id = 7, username = Some (ascii ''ann''), is_admin = False,
                  end_date = Some 900000, is_paused = False, pause_until = None\<rparr>"

definition other_user :: user where
  "other_user = subscriber\<lparr>user_id := 8, username := Some (ascii ''bob'')\<rparr>"

definition default_limits :: signal_limits_row where
  "default_limits =
     \<lparr>max_signals_per_day = 10, pause_after_signals = 5, pause_duration_hours = 24\<rparr>"

definition world_of :: "database \<Rightarrow> int \<Rightarrow> world" where
  "world_of d now = \<lparr>db = d, clock = now, api_calls = 0, attempts = []\<rparr>"

text \<open>One subscriber who has received \<open>n\<close> signals on day 1.\<close>

definition db_signals :: "nat \<Rightarrow> database" where
  "db_signals n = db_empty\<lparr>users := [subscriber],
                           user_predictions := replicate n (7, ascii ''k'', 86400)\<rparr>"

text \<open>Two subscribers, 7 and 8.\<close>

definition db_two_users :: database where
  "db_two_users = db_empty\<lparr>users := [subscriber, other_user]\<rparr>"

text \<open>One subscriber whose two preference rows name deactivated bookmakers.\<close>

definition db_deactivated :: database where
  "db_deactivated =
     db_empty\<lparr>users := [subscriber],
              bookmakers := [\<lparr>bk_id = 1, bk_name = ascii ''Fonbet'', bk_is_active = False\<rparr>,
                             \<lparr>bk_id = 2, bk_name = ascii ''Marathon'', bk_is_active = False\<rparr>,
                             \<lparr>bk_id = 3, bk_name = ascii ''Winline'', bk_is_active = True\<rparr>],
              user_bookmakers := [(7, 1), (7, 2)]\<rparr>"

text \<open>A ledger whose only row was written at instant 0.\<close>

definition db_old_entry :: database where
  "db_old_entry = db_empty\<lparr>sent_predictions := [(get_match_key match_fonbet, 0)]\<rparr>"

definition tips_channel :: channel where
  "tips_channel =
     \<lparr>channel_id = - 100, channel_name = ascii ''tips'', channel_is_active = True,
      created_at = 0\<rparr>"

definition other_channel :: channel where
  "other_channel = tips_channel\<lparr>channel_id := - 200, channel_name := ascii ''more''\<rparr>"

text \<open>One active channel without preference rows; the same with one subscriber.\<close>

definition db_channel :: database where
  "db_channel = db_empty\<lparr>channels := [tips_channel]\<rparr>"

definition db_channel_user :: database where
  "db_channel_user = db_empty\<lparr>users := [subscriber], channels := [tips_channel]\<rparr>"

text \<open>One subscriber whose pause ended at instant 500 and whose flag is still set.\<close>

definition db_expired_pause :: database where
  "db_expired_pause =
     db_empty\<lparr>users := [subscriber\<lparr>is_paused := True, pause_until := Some 500\<rparr>]\<rparr>"

text \<open>Subscriber 7 and channel -100 prefer Fonbet (active) and Marathon (deactivated);
  user 8 and channel -200 have no preference rows; channel -300 has selected Marathon
  only.\<close>

definition idle_channel :: channel where
  "idle_channel = tips_channel\<lparr>channel_id := - 300, channel_name := ascii ''idle''\<rparr>"

definition db_preferences :: database where
  "db_preferences =
     db_empty\<lparr>users := [subscriber, other_user],
              bookmakers := [\<lparr>bk_id = 1, bk_name = ascii ''Fonbet'', bk_is_active = True\<rparr>,
                             \<lparr>bk_id = 2, bk_name = ascii ''Marathon'', bk_is_active = False\<rparr>,
                             \<lparr>bk_id = 3, bk_name = ascii ''Winline'', bk_is_active = True\<rparr>],
              user_bookmakers := [(7, 1), (7, 2)],
              channels := [tips_channel, other_channel, idle_channel],
              channel_bookmakers := [(- 100, 1, True), (- 100, 2, True), (- 300, 2, True)]\<rparr>"

definition db_one_user :: database where
  "db_one_user =
     \<lparr>users = [\<lparr>user_id = 7, username = Some (ascii ''ann''), is_admin = False,
                end_date = Some 1000, is_paused = False, pause_until = None\<rparr>],
      sent_predictions = [], user_predictions = [], bookmakers = [], user_bookmakers = [],
      channels = [], channel_bookmakers = [], signal_limits = []\<rparr>"

section \<open>Properties\<close>

subsection \<open>Fingerprint\<close>

lemma date_match_prefix: "date_match s = (if has_date_prefix s then Some (take 5 s) else None)"
proof (cases s rule: date_match.cases)
  case (1 a b c d e rest)
  then show ?thesis by (simp add: has_date_prefix_def)
qed (simp_all add: has_date_prefix_def)

text \<open>
  Claim C8, as stated: the fingerprint is the raw sport field, a bar, the date part and the
  raw teams field. The code trims the sport and the teams fields as well, so the statement
  fails for a sport field with a leading blank.
\<close>

text \<open>
  Claim C8: \<open>get_match_key\<close> returns sport, a bar, the date part and teams, where sport and
  teams are the locals of the function (the trimmed fields, which are the fields themselves
  for the trimmed fields the scraper delivers) and the date part is the leading
  two-digits-slash-two-digits prefix of the trimmed date field (the whole trimmed date field
  when there is no such prefix); the result does not depend on the bookmaker field; and the
  prediction with sport \<open>Football\<close>, date \<open>12/05 18:30\<close> and teams \<open>Team A - Team B\<close> has
  the fingerprint \<open>Football|12/05|Team A - Team B\<close> for the bookmaker \<open>Fonbet\<close> and for
  \<open>Winline\<close>.
\<close>

theorem C8_get_match_key:
  "get_match_key p
     = strip (sport p) @ ascii ''|'' @ date_prefix (strip (date p)) @ ascii ''|''
       @ strip (teams p)
   \<and> (strip (sport p) = sport p \<and> strip (teams p) = teams p \<longrightarrow>
        get_match_key p
          = sport p @ ascii ''|'' @ date_prefix (strip (date p)) @ ascii ''|'' @ teams p)
   \<and> get_match_key (p\<lparr>bookmaker := b\<rparr>) = get_match_key p
   \<and> get_match_key \<lparr>bookmaker = ascii ''Fonbet'', sport = ascii ''Football'',
        date = ascii ''12/05 18:30'', tournament = t, teams = ascii ''Team A - Team B'',
        prediction_text = x, odd = y, val = z\<rparr>
       = ascii ''Football|12/05|Team A - Team B''
   \<and> get_match_key \<lparr>bookmaker = ascii ''Winline'', sport = ascii ''Football'',
        date = ascii ''12/05 18:30'', tournament = t, teams = ascii ''Team A - Team B'',
        prediction_text = x, odd = y, val = z\<rparr>
       = ascii ''Football|12/05|Team A - Team B''"
proof -
  have general: "\<And>q. get_match_key q
      = strip (sport q) @ ascii ''|'' @ date_prefix (strip (date q)) @ ascii ''|''
        @ strip (teams q)"
    by (simp add: get_match_key_def date_match_prefix date_prefix_def)
  have trimmed: "strip (ascii ''Football'') = ascii ''Football''"
    "strip (ascii ''Team A - Team B'') = ascii ''Team A - Team B''"
    "strip (ascii ''12/05 18:30'') = ascii ''12/05 18:30''"
    by (simp_all add: strip_def py_isspace_def ascii_def)
  have short: "date_prefix (ascii ''12/05 18:30'') = ascii ''12/05''"
    by (simp add: date_prefix_def has_date_prefix_def is_digit_def ascii_def)
  have joined: "ascii ''Football'' @ ascii ''|'' @ ascii ''12/05'' @ ascii ''|''
      @ ascii ''Team A - Team B'' = ascii ''Football|12/05|Team A - Team B''"
    by (simp add: ascii_def)
  show ?thesis
    by (simp add: general trimmed short joined)
qed

theorem C8_get_match_key_witness:
  "strip (sport match_fonbet) = sport match_fonbet
   \<and> strip (teams match_fonbet) = teams match_fonbet
   \<and> get_match_key match_fonbet
       = sport match_fonbet @ ascii ''|'' @ ascii ''12/05'' @ ascii ''|'' @ teams match_fonbet"
proof -
  have trimmed: "strip (sport match_fonbet) = sport match_fonbet
      \<and> strip (teams match_fonbet) = teams match_fonbet"
    by (simp add: match_fonbet_def strip_def py_isspace_def ascii_def)
  have short: "date_prefix (strip (date match_fonbet)) = ascii ''12/05''"
    by (simp add: match_fonbet_def strip_def py_isspace_def date_prefix_def has_date_prefix_def
        is_digit_def ascii_def)
  show ?thesis
    using C8_get_match_key [of match_fonbet] trimmed short by simp
qed

subsection \<open>Registration\<close>

text \<open>
  Claim C10: for a \<open>user_id\<close> already present in the users table, \<open>add_user\<close> leaves the
  stored row unchanged (user name, admin flag, end date and pause fields), whatever the
  arguments; with \<open>is_admin = True\<close> it grants no admin rights to an existing user.
\<close>

theorem C10_add_user_existing:
  "get_user d uid = Some u \<Longrightarrow>
     add_user d uid uname adm = d \<and> get_user (add_user d uid uname adm) uid = Some u"
proof -
  assume stored: "get_user d uid = Some u"
  then have "uid \<in> set (map user_id (users d))"
    by (auto simp: get_user_def find_Some_iff)
  then have "add_user d uid uname adm = d"
    by (simp add: add_user_def)
  with stored show ?thesis
    by simp
qed

theorem C10_add_user_existing_witness:
  "add_user db_one_user 7 (Some (ascii ''eve'')) True = db_one_user
   \<and> get_user (add_user db_one_user 7 (Some (ascii ''eve'')) True) 7
       = Some \<lparr>user_id = 7, username = Some (ascii ''ann''), is_admin = False,
                end_date = Some 1000, is_paused = False, pause_until = None\<rparr>"
proof -
  have stored: "get_user db_one_user 7
       = Some \<lparr>user_id = 7, username = Some (ascii ''ann''), is_admin = False,
                end_date = Some 1000, is_paused = False, pause_until = None\<rparr>"
    by (simp add: get_user_def db_one_user_def)
  show ?thesis
    using C10_add_user_existing [OF stored, of "Some (ascii ''eve'')" True] stored by simp
qed

subsection \<open>Facts about the store\<close>

lemma find_map_users:
  "(\<And>u. user_id (f u) = user_id u) \<Longrightarrow>
   find (\<lambda>u. user_id u = uid) (map f us) = map_option f (find (\<lambda>u. user_id u = uid) us)"
  by (induction us) simp_all

lemma get_user_unpause:
  "get_user (unpause_subscription d uid') uid
     = map_option (\<lambda>u. if user_id u = uid' then u\<lparr>is_paused := False\<rparr> else u) (get_user d uid)"
  by (simp add: get_user_def unpause_subscription_def find_map_users)

lemma get_user_set_pause:
  "get_user (set_user_pause d now uid' h) uid
     = map_option (\<lambda>u. if user_id u = uid'
                        then u\<lparr>is_paused := True, pause_until := Some (now + h * 3600)\<rparr> else u)
         (get_user d uid)"
  by (simp add: get_user_def set_user_pause_def find_map_users)

lemma get_user_id: "get_user d uid = Some u \<Longrightarrow> user_id u = uid"
  by (auto simp: get_user_def find_Some_iff)

lemma is_user_paused_False:
  "is_user_paused d now uid = (False, d1) \<Longrightarrow> get_user d uid = Some u \<Longrightarrow>
   \<exists>u'. get_user d1 uid = Some u' \<and> \<not> is_paused u'"
  by (auto simp: is_user_paused_def get_user_unpause dest: get_user_id split: option.splits if_splits)

lemma is_user_paused_frame:
  "user_predictions (snd (is_user_paused d now uid)) = user_predictions d"
  "bookmakers (snd (is_user_paused d now uid)) = bookmakers d"
  "user_bookmakers (snd (is_user_paused d now uid)) = user_bookmakers d"
  "sent_predictions (snd (is_user_paused d now uid)) = sent_predictions d"
  by (auto simp: is_user_paused_def unpause_subscription_def split: option.splits)

lemma count_after_add:
  "get_user_daily_signal_count (add_user_prediction d now uid k) now uid
     = get_user_daily_signal_count d now uid + 1"
  by (simp add: get_user_daily_signal_count_def add_user_prediction_def)

lemma count_set_pause:
  "get_user_daily_signal_count (set_user_pause d t uid' h) now uid
     = get_user_daily_signal_count d now uid"
  by (simp add: get_user_daily_signal_count_def set_user_pause_def)

lemma get_user_add_prediction:
  "get_user (add_user_prediction d now uid' k) uid = get_user d uid"
  by (simp add: get_user_def add_user_prediction_def)


lemma set_get_user_bookmakers:
  "set (get_user_bookmakers d uid)
     = {b \<in> set (bookmakers d). bk_is_active b \<and> (uid, bk_id b) \<in> set (user_bookmakers d)}"
  by (auto simp: get_user_bookmakers_def)

lemma set_get_channel_bookmakers:
  "set (get_channel_bookmakers d cid)
     = {(b, sel). b \<in> set (bookmakers d) \<and> bk_is_active b
          \<and> (cid, bk_id b, sel) \<in> set (channel_bookmakers d)}"
  by (auto simp: get_channel_bookmakers_def)

lemma no_active_preference:
  assumes "\<forall>ub \<in> set (user_bookmakers d). fst ub = uid \<longrightarrow>
             (\<forall>b \<in> set (bookmakers d). bk_id b = snd ub \<longrightarrow> \<not> bk_is_active b)"
  shows "get_user_bookmakers d uid = []"
proof -
  have "b \<notin> set (get_user_bookmakers d uid)" for b
  proof
    assume "b \<in> set (get_user_bookmakers d uid)"
    then have row: "b \<in> set (bookmakers d)" "bk_is_active b"
        "(user_id_of, bk_id b) \<in> set (user_bookmakers d)" if "user_id_of = uid" for user_id_of
      using that by (auto simp: set_get_user_bookmakers)
    from assms row(3) [OF refl]
    have "\<forall>b' \<in> set (bookmakers d). bk_id b' = bk_id b \<longrightarrow> \<not> bk_is_active b'"
      by fastforce
    with row(1,2) [OF refl] show False by blast
  qed
  then show ?thesis
    by (cases "get_user_bookmakers d uid") auto
qed

lemma cleared_preference: "get_user_bookmakers (update_user_bookmakers d uid []) uid = []"
proof -
  have "set (get_user_bookmakers (update_user_bookmakers d uid []) uid) = {}"
    by (auto simp: set_get_user_bookmakers update_user_bookmakers_def)
  then show ?thesis by simp
qed

lemma is_user_paused_clear:
  "is_user_paused (update_user_bookmakers d uid' ids) now uid
     = (fst (is_user_paused d now uid),
        update_user_bookmakers (snd (is_user_paused d now uid)) uid' ids)"
  by (simp add: is_user_paused_def get_user_def update_user_bookmakers_def
      unpause_subscription_def split: option.splits)

lemma get_user_bookmakers_paused:
  "get_user_bookmakers (snd (is_user_paused d now uid')) uid = get_user_bookmakers d uid"
  by (simp add: get_user_bookmakers_def is_user_paused_frame)

lemma add_user_prediction_clear:
  "add_user_prediction (update_user_bookmakers d uid' ids) now uid k
     = update_user_bookmakers (add_user_prediction d now uid k) uid' ids"
  by (simp add: add_user_prediction_def update_user_bookmakers_def)

lemma set_user_pause_clear:
  "set_user_pause (update_user_bookmakers d uid' ids) now uid h
     = update_user_bookmakers (set_user_pause d now uid h) uid' ids"
  by (simp add: set_user_pause_def update_user_bookmakers_def)

lemma count_clear:
  "get_user_daily_signal_count (update_user_bookmakers d uid' ids) now uid
     = get_user_daily_signal_count d now uid"
  by (simp add: get_user_daily_signal_count_def update_user_bookmakers_def)

subsection \<open>Ledger retention\<close>

text \<open>
  Claim C4, as stated: a fingerprint whose ledger row is older than 7 days is answered
  \<open>False\<close> by \<open>is_prediction_sent\<close>. The lookup does not read \<open>sent_at\<close>: with a row
  written at instant 0 and the clock at day 8, the lookup answers \<open>True\<close> and a pass leaves
  a prediction with that fingerprint unsent.
\<close>

theorem C4_lookup_ignores_age_counterexample:
  "sent_predictions db_old_entry = [(get_match_key match_fonbet, 0)]
   \<and> 0 < 8 * 86400 - seven_days
   \<and> is_prediction_sent db_old_entry (get_match_key match_fonbet)
   \<and> send_predictions_to_subscribed_users bot_ok (world_of db_old_entry (8 * 86400))
        (Some [match_fonbet]) = world_of db_old_entry (8 * 86400)"
  by code_simp

text \<open>
  Claim C4, amended: \<open>is_prediction_sent\<close> answers \<open>True\<close> for a fingerprint that has a
  ledger row, whatever its age; once \<open>delete_old_predictions\<close> (the sweep scheduled every
  two days) has run, a fingerprint whose rows were all older than 7 days at the sweep is
  answered \<open>False\<close>, and a prediction with that fingerprint is new again.
\<close>

theorem C4_pruned_entry_unsent:
  assumes "(F, t) \<in> set (sent_predictions d)"
    and "\<forall>t'. (F, t') \<in> set (sent_predictions d) \<longrightarrow> t' < now - seven_days"
  shows "is_prediction_sent d F \<and> \<not> is_prediction_sent (delete_old_predictions d now) F"
proof -
  from assms(1) have "filter (\<lambda>r. fst r = F) (sent_predictions d) \<noteq> []"
    by (force simp: filter_empty_conv)
  then have before: "is_prediction_sent d F"
    by (simp add: is_prediction_sent_def)
  have "filter (\<lambda>r. fst r = F) (filter (\<lambda>r. \<not> snd r < now - seven_days) (sent_predictions d)) = []"
    using assms(2) by (auto simp: filter_empty_conv)
  then have "\<not> is_prediction_sent (delete_old_predictions d now) F"
    by (simp add: is_prediction_sent_def delete_old_predictions_def)
  with before show ?thesis by simp
qed

theorem C4_pruned_entry_unsent_witness:
  "is_prediction_sent db_old_entry (get_match_key match_fonbet)
   \<and> \<not> is_prediction_sent (delete_old_predictions db_old_entry (8 * 86400))
         (get_match_key match_fonbet)"
proof -
  have row: "(get_match_key match_fonbet, 0) \<in> set (sent_predictions db_old_entry)"
    by (simp add: db_old_entry_def db_empty_def)
  have old: "\<forall>t'. (get_match_key match_fonbet, t') \<in> set (sent_predictions db_old_entry)
      \<longrightarrow> t' < 8 * 86400 - seven_days"
    by (simp add: db_old_entry_def db_empty_def seven_days_def)
  show ?thesis
    using C4_pruned_entry_unsent [OF row old] by simp
qed

subsection \<open>Quota threshold\<close>

text \<open>
  Claim C5: with \<open>pause_after_signals = 5\<close>, the delivery that makes a user's count of the
  day 5 puts the user into a pause until now plus \<open>pause_duration_hours\<close> (\<open>is_paused\<close>
  set, \<open>pause_until\<close> written); a delivery that makes the count less than 5, the 4th in
  particular, leaves the user unpaused. The pause is written in the step that delivered
  the message: the log of that step ends with the delivery to the user.
\<close>

theorem C5_quota_threshold:
  assumes limit: "pause_after_signals limits = 5"
    and delivered: "send_to_user b p limits w u = (Sent, w')"
    and stored: "get_user (db w) (user_id u) = Some row"
  shows "attempts w' = attempts w @ [(user_id u, p, None)]
    \<and> (get_user_daily_signal_count (db w') (clock w') (user_id u) = 5 \<longrightarrow>
         map_option is_paused (get_user (db w') (user_id u)) = Some True
         \<and> map_option pause_until (get_user (db w') (user_id u))
             = Some (Some (clock w' + pause_duration_hours limits * 3600)))
    \<and> (get_user_daily_signal_count (db w') (clock w') (user_id u) < 5 \<longrightarrow>
         map_option is_paused (get_user (db w') (user_id u)) = Some False)"
proof -
  obtain paused d1 where check: "is_user_paused (db w) (clock w) (user_id u) = (paused, d1)"
    by (cases "is_user_paused (db w) (clock w) (user_id u)")
  from delivered check have np: "\<not> paused"
    by (auto simp: send_to_user_def Let_def split: if_splits)
  from is_user_paused_False [of "db w" "clock w" "user_id u" d1 row] check np stored
  obtain u1 where u1: "get_user d1 (user_id u) = Some u1" "\<not> is_paused u1"
    by auto
  have up: "user_predictions d1 = user_predictions (db w)"
    using is_user_paused_frame(1) [of "db w" "clock w" "user_id u"] check by simp
  define w1 where "w1 = w\<lparr>db := d1\<rparr>"
  define dc where "dc = get_user_daily_signal_count d1 (clock w) (user_id u)"
  obtain r w2 where send: "bot_send b w1 (user_id u) p = (r, w2)"
    by (cases "bot_send b w1 (user_id u) p")
  from delivered check np send have r: "r = None"
    by (auto simp: send_to_user_def Let_def w1_def split: if_splits option.splits)
  have w2: "w2 = w1\<lparr>api_calls := Suc (api_calls w1), attempts := attempts w1 @ [(user_id u, p, None)]\<rparr>"
    using send r by (auto simp: bot_send_def Let_def)
  have w': "w' = w2\<lparr>db := (if dc + 1 \<ge> pause_after_signals limits
                then set_user_pause (add_user_prediction d1 (clock w) (user_id u) (get_match_key p))
                       (clock w) (user_id u) (pause_duration_hours limits)
                else add_user_prediction d1 (clock w) (user_id u) (get_match_key p))\<rparr>"
    using delivered check np send r
    by (auto simp: send_to_user_def Let_def w1_def dc_def w2 split: if_splits)
  have c2: "clock w2 = clock w" by (simp add: w2 w1_def)
  have clock: "clock w' = clock w" by (simp add: w' c2)
  have cnt: "get_user_daily_signal_count (db w') (clock w') (user_id u) = dc + 1"
    by (simp add: w' c2 count_set_pause count_after_add dc_def)
  have a: "attempts w' = attempts w @ [(user_id u, p, None)]"
    by (simp add: w' w2 w1_def)
  have five: "dc + 1 = 5 \<Longrightarrow> map_option is_paused (get_user (db w') (user_id u)) = Some True
         \<and> map_option pause_until (get_user (db w') (user_id u))
             = Some (Some (clock w' + pause_duration_hours limits * 3600))"
    using u1 get_user_id [OF u1(1)]
    by (simp add: w' limit c2 get_user_set_pause get_user_add_prediction)
  have four: "dc + 1 < 5 \<Longrightarrow> map_option is_paused (get_user (db w') (user_id u)) = Some False"
    using u1 by (simp add: w' limit get_user_add_prediction)
  show ?thesis using a five four cnt by simp
qed

theorem C5_quota_threshold_witness:
  "fst (send_to_user bot_ok match_fonbet default_limits (world_of (db_signals 4) 90000) subscriber)
     = Sent
   \<and> map_option is_paused
        (get_user (db (snd (send_to_user bot_ok match_fonbet default_limits
                              (world_of (db_signals 4) 90000) subscriber))) 7) = Some True
   \<and> map_option pause_until
        (get_user (db (snd (send_to_user bot_ok match_fonbet default_limits
                              (world_of (db_signals 4) 90000) subscriber))) 7)
       = Some (Some (90000 + 24 * 3600))
   \<and> fst (send_to_user bot_ok match_fonbet default_limits (world_of (db_signals 3) 90000) subscriber)
     = Sent
   \<and> map_option is_paused
        (get_user (db (snd (send_to_user bot_ok match_fonbet default_limits
                              (world_of (db_signals 3) 90000) subscriber))) 7) = Some False"
proof -
  define r5 where
    "r5 = send_to_user bot_ok match_fonbet default_limits (world_of (db_signals 4) 90000) subscriber"
  define r4 where
    "r4 = send_to_user bot_ok match_fonbet default_limits (world_of (db_signals 3) 90000) subscriber"
  have limit: "pause_after_signals default_limits = 5"
    by (simp add: default_limits_def)
  have uid: "user_id subscriber = 7"
    by (simp add: subscriber_def)
  have stored: "get_user (db (world_of (db_signals n) 90000)) (user_id subscriber) = Some subscriber"
    for n
    by (simp add: get_user_def world_of_def db_signals_def db_empty_def subscriber_def)
  have sent5: "fst r5 = Sent" unfolding r5_def by code_simp
  have sent4: "fst r4 = Sent" unfolding r4_def by code_simp
  have count5: "get_user_daily_signal_count (db (snd r5)) (clock (snd r5)) 7 = 5"
    unfolding r5_def by code_simp
  have count4: "get_user_daily_signal_count (db (snd r4)) (clock (snd r4)) 7 = 4"
    unfolding r4_def by code_simp
  have clock5: "clock (snd r5) = 90000" unfolding r5_def by code_simp
  have d5: "send_to_user bot_ok match_fonbet default_limits (world_of (db_signals 4) 90000) subscriber
      = (Sent, snd r5)"
    using sent5 by (simp add: r5_def prod_eq_iff)
  have d4: "send_to_user bot_ok match_fonbet default_limits (world_of (db_signals 3) 90000) subscriber
      = (Sent, snd r4)"
    using sent4 by (simp add: r4_def prod_eq_iff)
  show ?thesis
    using C5_quota_threshold [OF limit d5 stored] C5_quota_threshold [OF limit d4 stored]
      sent5 sent4 count5 count4 clock5
    by (simp add: uid r5_def r4_def default_limits_def)
qed

subsection \<open>What a step sends\<close>

text \<open>A user who is not paused, is under the daily limit and has no active preferred
  bookmaker is sent the prediction, whatever its bookmaker; so is an active channel without
  an active selected bookmaker, if the bot may post there.\<close>

lemma count_paused:
  "get_user_daily_signal_count (snd (is_user_paused d now uid')) t uid
     = get_user_daily_signal_count d t uid"
  by (simp add: get_user_daily_signal_count_def is_user_paused_frame)

lemma user_sends:
  assumes "get_user_bookmakers (db w) (user_id u) = []"
    and "\<not> fst (is_user_paused (db w) (clock w) (user_id u))"
    and "get_user_daily_signal_count (db w) (clock w) (user_id u) < max_signals_per_day limits"
  shows "attempts (snd (send_to_user b p limits w u))
           = attempts w @ [(user_id u, p, send_message b (api_calls w) (user_id u))]
    \<and> (send_message b (api_calls w) (user_id u) = None
         \<longrightarrow> fst (send_to_user b p limits w u) = Sent)"
  using assms
  by (simp add: send_to_user_def Let_def split_beta bot_send_def count_paused
      get_user_bookmakers_paused split: option.splits)

lemma user_skips:
  assumes "get_user_bookmakers (db w) (user_id u) \<noteq> []"
    and "strip (bookmaker p) \<notin> bk_name ` set (get_user_bookmakers (db w) (user_id u))"
  shows "fst (send_to_user b p limits w u) = Skipped
    \<and> attempts (snd (send_to_user b p limits w u)) = attempts w"
  using assms
  by (simp add: send_to_user_def Let_def split_beta get_user_bookmakers_paused)

lemma channel_sends:
  assumes "filter snd (get_channel_bookmakers (db w) (channel_id ch)) = []"
    and "channel_is_active ch"
    and "get_chat_member b (api_calls w) (channel_id ch) = Inr m"
    and "status m = Administrator" and "can_post_messages m"
  shows "attempts (snd (send_to_channel b p w ch))
           = attempts w @ [(channel_id ch, p, send_message b (Suc (api_calls w)) (channel_id ch))]
    \<and> (send_message b (Suc (api_calls w)) (channel_id ch) = None
         \<longrightarrow> fst (send_to_channel b p w ch) = Sent)"
  using assms
  by (simp add: send_to_channel_def Let_def bot_get_chat_member_def bot_send_def
      split: option.splits)

lemma channel_skips:
  assumes "filter snd (get_channel_bookmakers (db w) (channel_id ch)) \<noteq> []"
    and "strip (bookmaker p)
           \<notin> (\<lambda>r. bk_name (fst r)) ` set (filter snd (get_channel_bookmakers (db w) (channel_id ch)))"
  shows "send_to_channel b p w ch = (Skipped, w)"
  using assms by (simp add: send_to_channel_def Let_def)

lemma user_no_active_preference:
  assumes "\<not> user_has_active_preference d uid"
  shows "get_user_bookmakers d uid = []"
proof -
  have "set (get_user_bookmakers d uid) = {}"
    using assms by (auto simp: set_get_user_bookmakers user_has_active_preference_def)
  then show ?thesis by simp
qed

lemma user_no_rows:
  assumes "\<forall>ub \<in> set (user_bookmakers d). fst ub \<noteq> uid"
  shows "\<not> user_has_active_preference d uid"
  using assms by (force simp: user_has_active_preference_def)

lemma channel_no_active_preference:
  assumes "\<not> channel_has_active_preference d cid"
  shows "filter snd (get_channel_bookmakers d cid) = []"
proof -
  have "r \<notin> set (filter snd (get_channel_bookmakers d cid))" for r
  proof
    assume "r \<in> set (filter snd (get_channel_bookmakers d cid))"
    then have "fst r \<in> set (bookmakers d)" "bk_is_active (fst r)"
      "(cid, bk_id (fst r), True) \<in> set (channel_bookmakers d)"
      by (auto simp: set_get_channel_bookmakers)
    with assms show False
      by (auto simp: channel_has_active_preference_def)
  qed
  then show ?thesis
    by (cases "filter snd (get_channel_bookmakers d cid)") auto
qed

lemma channel_no_rows:
  assumes "\<forall>cb \<in> set (channel_bookmakers d). fst cb \<noteq> cid"
  shows "\<not> channel_has_active_preference d cid"
  using assms by (force simp: channel_has_active_preference_def)

lemma in_user_preference_names:
  "b \<in> set (bookmakers d) \<Longrightarrow> (uid, bk_id b) \<in> set (user_bookmakers d) \<Longrightarrow>
   bk_name b \<in> set (user_preference_names d uid)"
  by (force simp: user_preference_names_def)

lemma in_channel_preference_names:
  "b \<in> set (bookmakers d) \<Longrightarrow> (cid, bk_id b, True) \<in> set (channel_bookmakers d) \<Longrightarrow>
   bk_name b \<in> set (channel_preference_names d cid)"
  by (force simp: channel_preference_names_def)

lemma user_rejects:
  assumes "user_has_active_preference d uid" and "n \<notin> set (user_preference_names d uid)"
  shows "get_user_bookmakers d uid \<noteq> [] \<and> n \<notin> bk_name ` set (get_user_bookmakers d uid)"
proof -
  from assms(1) have "set (get_user_bookmakers d uid) \<noteq> {}"
    by (auto simp: user_has_active_preference_def set_get_user_bookmakers)
  then have ne: "get_user_bookmakers d uid \<noteq> []" by auto
  have "bk_name ` set (get_user_bookmakers d uid) \<subseteq> set (user_preference_names d uid)"
    by (auto simp: set_get_user_bookmakers in_user_preference_names)
  with assms(2) ne show ?thesis by blast
qed

lemma channel_rejects:
  assumes "channel_has_active_preference d cid" and "n \<notin> set (channel_preference_names d cid)"
  shows "filter snd (get_channel_bookmakers d cid) \<noteq> []
    \<and> n \<notin> (\<lambda>r. bk_name (fst r)) ` set (filter snd (get_channel_bookmakers d cid))"
proof -
  from assms(1) obtain b where
    "(b, True) \<in> set (get_channel_bookmakers d cid)"
    by (auto simp: channel_has_active_preference_def set_get_channel_bookmakers)
  then have "(b, True) \<in> set (filter snd (get_channel_bookmakers d cid))" by simp
  then have ne: "filter snd (get_channel_bookmakers d cid) \<noteq> []" by (metis empty_iff empty_set)
  have "(\<lambda>r. bk_name (fst r)) ` set (filter snd (get_channel_bookmakers d cid))
          \<subseteq> set (channel_preference_names d cid)"
    by (auto simp: set_get_channel_bookmakers in_channel_preference_names)
  with assms(2) ne show ?thesis by blast
qed

subsection \<open>Preferences that name deactivated bookmakers only\<close>

text \<open>
  Claim C9: a user whose preference rows all reference deactivated bookmakers has the
  empty effective preference list and is treated by the fan-out as a user without
  preference rows. Unless paused or at the daily limit, the user is sent the prediction,
  whatever its bookmaker: the step makes the send to that user, and the step is a delivery
  when the transport accepts the send. On the same state with the user's preference rows
  deleted the step has the same outcome and the same resulting state up to those rows.
\<close>

theorem C9_deactivated_preferences:
  assumes "\<forall>ub \<in> set (user_bookmakers (db w)). fst ub = user_id u \<longrightarrow>
             (\<forall>b \<in> set (bookmakers (db w)). bk_id b = snd ub \<longrightarrow> \<not> bk_is_active b)"
  shows "get_user_bookmakers (db w) (user_id u) = []
    \<and> (\<not> fst (is_user_paused (db w) (clock w) (user_id u))
        \<and> get_user_daily_signal_count (db w) (clock w) (user_id u) < max_signals_per_day limits
        \<longrightarrow> attempts (snd (send_to_user b p limits w u))
              = attempts w @ [(user_id u, p, send_message b (api_calls w) (user_id u))]
            \<and> (send_message b (api_calls w) (user_id u) = None
                 \<longrightarrow> fst (send_to_user b p limits w u) = Sent))
    \<and> send_to_user b p limits (clear_user_bookmakers (user_id u) w) u
        = (fst (send_to_user b p limits w u),
           clear_user_bookmakers (user_id u) (snd (send_to_user b p limits w u)))"
proof -
  have none: "get_user_bookmakers (db w) (user_id u) = []"
    using assms by (rule no_active_preference)
  have none': "get_user_bookmakers (update_user_bookmakers
                  (snd (is_user_paused (db w) (clock w) (user_id u))) (user_id u) []) (user_id u) = []"
    by (rule cleared_preference)
  have same: "send_to_user b p limits (clear_user_bookmakers (user_id u) w) u
        = (fst (send_to_user b p limits w u),
           clear_user_bookmakers (user_id u) (snd (send_to_user b p limits w u)))"
    using none none'
    by (simp add: send_to_user_def clear_user_bookmakers_def is_user_paused_clear count_clear
        bot_send_def Let_def split_beta add_user_prediction_clear set_user_pause_clear
        get_user_bookmakers_paused split: option.splits)
  show ?thesis
    using none same user_sends [OF none, of limits b p] by simp
qed

theorem C9_deactivated_preferences_witness:
  "get_user_bookmakers (db (world_of db_deactivated 1000)) 7 = []
   \<and> attempts (snd (send_to_user bot_ok match_winline default_limits
                       (world_of db_deactivated 1000) subscriber))
       = [(7, match_winline, None)]
   \<and> fst (send_to_user bot_ok match_winline default_limits (world_of db_deactivated 1000)
            subscriber) = Sent
   \<and> send_to_user bot_ok match_winline default_limits
         (clear_user_bookmakers 7 (world_of db_deactivated 1000)) subscriber
       = (Sent, clear_user_bookmakers 7
                  (snd (send_to_user bot_ok match_winline default_limits
                          (world_of db_deactivated 1000) subscriber)))"
proof -
  have uid: "user_id subscriber = 7"
    by (simp add: subscriber_def)
  have inactive: "\<forall>ub \<in> set (user_bookmakers (db (world_of db_deactivated 1000))).
      fst ub = user_id subscriber \<longrightarrow>
      (\<forall>b \<in> set (bookmakers (db (world_of db_deactivated 1000))).
         bk_id b = snd ub \<longrightarrow> \<not> bk_is_active b)"
    by (simp add: world_of_def db_deactivated_def db_empty_def)
  have eligible: "\<not> fst (is_user_paused (db (world_of db_deactivated 1000))
                          (clock (world_of db_deactivated 1000)) (user_id subscriber))
      \<and> get_user_daily_signal_count (db (world_of db_deactivated 1000))
            (clock (world_of db_deactivated 1000)) (user_id subscriber)
          < max_signals_per_day default_limits"
    by code_simp
  have accepted: "send_message bot_ok (api_calls (world_of db_deactivated 1000))
      (user_id subscriber) = None"
    by (simp add: bot_ok_def)
  have before: "attempts (world_of db_deactivated 1000) = []"
    by (simp add: world_of_def)
  show ?thesis
    using C9_deactivated_preferences [OF inactive, of default_limits bot_ok match_winline]
      eligible accepted before
    by (simp add: uid)
qed

subsection \<open>Bookmaker filter\<close>

text \<open>
  Claim C6, as stated: a recipient whose preference rows are exactly two bookmakers never
  receives a prediction of a third. Subscriber 7 prefers Fonbet and Marathon, both
  deactivated; the prediction of Winline is delivered to that user.
\<close>

theorem C6_delivered_outside_preferences_counterexample:
  "user_bookmakers db_deactivated = [(7, 1), (7, 2)]
   \<and> user_preference_names db_deactivated 7 = [ascii ''Fonbet'', ascii ''Marathon'']
   \<and> strip (bookmaker match_winline) = ascii ''Winline''
   \<and> attempts (snd (send_prediction_to_user_and_channel bot_ok (world_of db_deactivated 1000)
        match_winline)) = [(7, match_winline, None)]"
  by code_simp

text \<open>
  Claim C6, amended, for a user who is not paused and under the daily limit, and for an
  active channel where the bot is an administrator that may post. Such a recipient without
  preference rows is sent the prediction whatever its bookmaker: the step makes the send,
  and it is a delivery when the transport accepts the send. A recipient one of whose
  preferred bookmakers is active (for a channel: selected and active) is skipped, with no
  send, for a prediction whose bookmaker is not the name of one of the preferred
  bookmakers. A recipient whose preferred bookmakers are all deactivated is treated as one
  without preference rows and is sent the prediction whatever its bookmaker.
\<close>

theorem C6_bookmaker_filter:
  "((\<forall>ub \<in> set (user_bookmakers (db w)). fst ub \<noteq> user_id u)
      \<and> \<not> fst (is_user_paused (db w) (clock w) (user_id u))
      \<and> get_user_daily_signal_count (db w) (clock w) (user_id u) < max_signals_per_day limits
      \<longrightarrow> attempts (snd (send_to_user b p limits w u))
            = attempts w @ [(user_id u, p, send_message b (api_calls w) (user_id u))]
          \<and> (send_message b (api_calls w) (user_id u) = None
               \<longrightarrow> fst (send_to_user b p limits w u) = Sent))
   \<and> ((\<forall>cb \<in> set (channel_bookmakers (db w)). fst cb \<noteq> channel_id ch)
      \<and> channel_is_active ch
      \<and> get_chat_member b (api_calls w) (channel_id ch) = Inr m
      \<and> status m = Administrator \<and> can_post_messages m
      \<longrightarrow> attempts (snd (send_to_channel b p w ch))
            = attempts w
              @ [(channel_id ch, p, send_message b (Suc (api_calls w)) (channel_id ch))]
          \<and> (send_message b (Suc (api_calls w)) (channel_id ch) = None
               \<longrightarrow> fst (send_to_channel b p w ch) = Sent))
   \<and> (user_has_active_preference (db w) (user_id u)
        \<and> strip (bookmaker p) \<notin> set (user_preference_names (db w) (user_id u))
      \<longrightarrow> fst (send_to_user b p limits w u) = Skipped
          \<and> attempts (snd (send_to_user b p limits w u)) = attempts w)
   \<and> (channel_has_active_preference (db w) (channel_id ch)
        \<and> strip (bookmaker p) \<notin> set (channel_preference_names (db w) (channel_id ch))
      \<longrightarrow> send_to_channel b p w ch = (Skipped, w))
   \<and> (\<not> user_has_active_preference (db w) (user_id u)
      \<and> \<not> fst (is_user_paused (db w) (clock w) (user_id u))
      \<and> get_user_daily_signal_count (db w) (clock w) (user_id u) < max_signals_per_day limits
      \<longrightarrow> attempts (snd (send_to_user b p limits w u))
            = attempts w @ [(user_id u, p, send_message b (api_calls w) (user_id u))]
          \<and> (send_message b (api_calls w) (user_id u) = None
               \<longrightarrow> fst (send_to_user b p limits w u) = Sent))
   \<and> (\<not> channel_has_active_preference (db w) (channel_id ch)
      \<and> channel_is_active ch
      \<and> get_chat_member b (api_calls w) (channel_id ch) = Inr m
      \<and> status m = Administrator \<and> can_post_messages m
      \<longrightarrow> attempts (snd (send_to_channel b p w ch))
            = attempts w
              @ [(channel_id ch, p, send_message b (Suc (api_calls w)) (channel_id ch))]
          \<and> (send_message b (Suc (api_calls w)) (channel_id ch) = None
               \<longrightarrow> fst (send_to_channel b p w ch) = Sent))"
proof -
  have user_wild: "\<not> user_has_active_preference (db w) (user_id u)
      \<and> \<not> fst (is_user_paused (db w) (clock w) (user_id u))
      \<and> get_user_daily_signal_count (db w) (clock w) (user_id u) < max_signals_per_day limits
      \<longrightarrow> attempts (snd (send_to_user b p limits w u))
            = attempts w @ [(user_id u, p, send_message b (api_calls w) (user_id u))]
          \<and> (send_message b (api_calls w) (user_id u) = None
               \<longrightarrow> fst (send_to_user b p limits w u) = Sent)"
    using user_sends [OF user_no_active_preference, of w u limits b p] by blast
  have channel_wild: "\<not> channel_has_active_preference (db w) (channel_id ch)
      \<and> channel_is_active ch
      \<and> get_chat_member b (api_calls w) (channel_id ch) = Inr m
      \<and> status m = Administrator \<and> can_post_messages m
      \<longrightarrow> attempts (snd (send_to_channel b p w ch))
            = attempts w
              @ [(channel_id ch, p, send_message b (Suc (api_calls w)) (channel_id ch))]
          \<and> (send_message b (Suc (api_calls w)) (channel_id ch) = None
               \<longrightarrow> fst (send_to_channel b p w ch) = Sent)"
    using channel_sends [OF channel_no_active_preference, of w ch b m p] by blast
  have user_none: "(\<forall>ub \<in> set (user_bookmakers (db w)). fst ub \<noteq> user_id u)
      \<longrightarrow> \<not> user_has_active_preference (db w) (user_id u)"
    using user_no_rows by blast
  have channel_none: "(\<forall>cb \<in> set (channel_bookmakers (db w)). fst cb \<noteq> channel_id ch)
      \<longrightarrow> \<not> channel_has_active_preference (db w) (channel_id ch)"
    using channel_no_rows by blast
  have user_skip: "user_has_active_preference (db w) (user_id u)
        \<and> strip (bookmaker p) \<notin> set (user_preference_names (db w) (user_id u))
      \<longrightarrow> fst (send_to_user b p limits w u) = Skipped
          \<and> attempts (snd (send_to_user b p limits w u)) = attempts w"
    using user_skips user_rejects by blast
  have channel_skip: "channel_has_active_preference (db w) (channel_id ch)
        \<and> strip (bookmaker p) \<notin> set (channel_preference_names (db w) (channel_id ch))
      \<longrightarrow> send_to_channel b p w ch = (Skipped, w)"
    using channel_skips channel_rejects by blast
  from user_wild channel_wild user_none channel_none user_skip channel_skip
  show ?thesis by blast
qed

theorem C6_bookmaker_filter_witness:
  "attempts (snd (send_to_user bot_ok match_winline default_limits
                    (world_of db_preferences 1000) other_user)) = [(8, match_winline, None)]
   \<and> fst (send_to_user bot_ok match_winline default_limits (world_of db_preferences 1000)
            other_user) = Sent
   \<and> attempts (snd (send_to_channel bot_ok match_winline (world_of db_preferences 1000)
                       other_channel)) = [(- 200, match_winline, None)]
   \<and> fst (send_to_channel bot_ok match_winline (world_of db_preferences 1000) other_channel)
       = Sent
   \<and> fst (send_to_user bot_ok match_winline default_limits (world_of db_preferences 1000)
            subscriber) = Skipped
   \<and> attempts (snd (send_to_user bot_ok match_winline default_limits
                       (world_of db_preferences 1000) subscriber)) = []
   \<and> send_to_channel bot_ok match_winline (world_of db_preferences 1000) tips_channel
       = (Skipped, world_of db_preferences 1000)
   \<and> attempts (snd (send_to_user bot_ok match_winline default_limits
                       (world_of db_deactivated 1000) subscriber)) = [(7, match_winline, None)]
   \<and> fst (send_to_user bot_ok match_winline default_limits (world_of db_deactivated 1000)
            subscriber) = Sent
   \<and> attempts (snd (send_to_channel bot_ok match_winline (world_of db_preferences 1000)
                       idle_channel)) = [(- 300, match_winline, None)]
   \<and> fst (send_to_channel bot_ok match_winline (world_of db_preferences 1000) idle_channel)
       = Sent"
proof -
  define admin where "admin = \<lparr>status = Administrator, can_post_messages = True\<rparr>"
  have ids: "user_id other_user = 8" "channel_id other_channel = - 200"
    "user_id subscriber = 7" "channel_id tips_channel = - 100" "channel_id idle_channel = - 300"
    by (simp_all add: other_user_def other_channel_def subscriber_def tips_channel_def
        idle_channel_def)
  have admin: "get_chat_member bot_ok n c = Inr admin" "status admin = Administrator"
    "can_post_messages admin" for n c
    by (simp_all add: bot_ok_def admin_def)
  have accepted: "send_message bot_ok n c = None" for n c
    by (simp add: bot_ok_def)
  have active: "channel_is_active other_channel" "channel_is_active idle_channel"
    by (simp_all add: other_channel_def idle_channel_def tips_channel_def)
  have before: "attempts (world_of d 1000) = []" for d
    by (simp add: world_of_def)
  have no_user_rows:
    "\<forall>ub \<in> set (user_bookmakers (db (world_of db_preferences 1000))). fst ub \<noteq> user_id other_user"
    by (simp add: ids world_of_def db_preferences_def db_empty_def)
  have no_channel_rows:
    "\<forall>cb \<in> set (channel_bookmakers (db (world_of db_preferences 1000))).
       fst cb \<noteq> channel_id other_channel"
    by (simp add: ids world_of_def db_preferences_def db_empty_def)
  have eligible: "\<not> fst (is_user_paused (db (world_of db_preferences 1000))
                           (clock (world_of db_preferences 1000)) (user_id other_user))
      \<and> get_user_daily_signal_count (db (world_of db_preferences 1000))
            (clock (world_of db_preferences 1000)) (user_id other_user)
          < max_signals_per_day default_limits"
    by code_simp
  have eligible': "\<not> fst (is_user_paused (db (world_of db_deactivated 1000))
                           (clock (world_of db_deactivated 1000)) (user_id subscriber))
      \<and> get_user_daily_signal_count (db (world_of db_deactivated 1000))
            (clock (world_of db_deactivated 1000)) (user_id subscriber)
          < max_signals_per_day default_limits"
    by code_simp
  have user_pref: "user_has_active_preference (db (world_of db_preferences 1000)) (user_id subscriber)
      \<and> strip (bookmaker match_winline)
          \<notin> set (user_preference_names (db (world_of db_preferences 1000)) (user_id subscriber))"
    by code_simp
  have channel_pref:
    "channel_has_active_preference (db (world_of db_preferences 1000)) (channel_id tips_channel)
      \<and> strip (bookmaker match_winline)
          \<notin> set (channel_preference_names (db (world_of db_preferences 1000))
                   (channel_id tips_channel))"
    by code_simp
  have user_deactivated:
    "\<not> user_has_active_preference (db (world_of db_deactivated 1000)) (user_id subscriber)"
    by code_simp
  have channel_deactivated:
    "\<not> channel_has_active_preference (db (world_of db_preferences 1000)) (channel_id idle_channel)"
    by code_simp
  note at_wild = C6_bookmaker_filter [where w = "world_of db_preferences 1000"
      and u = other_user and ch = other_channel and p = match_winline and b = bot_ok
      and limits = default_limits and m = admin]
  note at_skip = C6_bookmaker_filter [where w = "world_of db_preferences 1000"
      and u = subscriber and ch = tips_channel and p = match_winline and b = bot_ok
      and limits = default_limits and m = admin]
  note at_user = C6_bookmaker_filter [where w = "world_of db_deactivated 1000"
      and u = subscriber and ch = idle_channel and p = match_winline and b = bot_ok
      and limits = default_limits and m = admin]
  note at_channel = C6_bookmaker_filter [where w = "world_of db_preferences 1000"
      and u = subscriber and ch = idle_channel and p = match_winline and b = bot_ok
      and limits = default_limits and m = admin]
  have one: "attempts (snd (send_to_user bot_ok match_winline default_limits
                    (world_of db_preferences 1000) other_user)) = [(8, match_winline, None)]
      \<and> fst (send_to_user bot_ok match_winline default_limits (world_of db_preferences 1000)
            other_user) = Sent"
    using at_wild no_user_rows eligible accepted before by (simp add: ids)
  have two: "attempts (snd (send_to_channel bot_ok match_winline (world_of db_preferences 1000)
                       other_channel)) = [(- 200, match_winline, None)]
      \<and> fst (send_to_channel bot_ok match_winline (world_of db_preferences 1000) other_channel)
       = Sent"
    using at_wild no_channel_rows active admin accepted before by (simp add: ids)
  have three: "fst (send_to_user bot_ok match_winline default_limits (world_of db_preferences 1000)
            subscriber) = Skipped
      \<and> attempts (snd (send_to_user bot_ok match_winline default_limits
                       (world_of db_preferences 1000) subscriber)) = []
      \<and> send_to_channel bot_ok match_winline (world_of db_preferences 1000) tips_channel
       = (Skipped, world_of db_preferences 1000)"
    using at_skip user_pref channel_pref before by simp
  have four: "attempts (snd (send_to_user bot_ok match_winline default_limits
                       (world_of db_deactivated 1000) subscriber)) = [(7, match_winline, None)]
      \<and> fst (send_to_user bot_ok match_winline default_limits (world_of db_deactivated 1000)
            subscriber) = Sent"
    using at_user user_deactivated eligible' accepted before by (simp add: ids)
  have five: "attempts (snd (send_to_channel bot_ok match_winline (world_of db_preferences 1000)
                       idle_channel)) = [(- 300, match_winline, None)]
      \<and> fst (send_to_channel bot_ok match_winline (world_of db_preferences 1000) idle_channel)
       = Sent"
    using at_channel channel_deactivated active admin accepted before by (simp add: ids)
  from one two three four five show ?thesis by simp
qed

subsection \<open>Rate limit\<close>

text \<open>No step sleeps, and no step sends more than once.\<close>

lemma user_single_attempt:
  "clock (snd (send_to_user b p limits w u)) = clock w
   \<and> length (attempts (snd (send_to_user b p limits w u))) \<le> Suc (length (attempts w))"
  by (simp add: send_to_user_def Let_def split_beta bot_send_def split: option.splits)

lemma channel_single_attempt:
  "clock (snd (send_to_channel b p w ch)) = clock w
   \<and> length (attempts (snd (send_to_channel b p w ch))) \<le> Suc (length (attempts w))"
  by (simp add: send_to_channel_def Let_def bot_get_chat_member_def bot_send_def
      split: option.splits sum.splits)

text \<open>
  Claim C7 says that a delivery answered "retry after N seconds" is followed by a sleep of
  N seconds and exactly one more send, after which the engine moves on to the next
  recipient. Evaluated on the code: the send to the channel is answered "retry after 5
  seconds"; the pass ends with that one send in the log, the clock unmoved, the subscriber
  not visited and the ledger empty. The same with two subscribers and no channel, the send
  to the first being so answered: one send, no sleep, the second subscriber not visited.
  In both runs a second send would have been accepted.
\<close>

theorem C7_rate_limit_aborts_fan_out:
  "send_predictions_to_subscribed_users (bot_rate_limited 1) (world_of db_channel_user 1000)
       (Some [match_fonbet])
     = (world_of db_channel_user 1000)
         \<lparr>api_calls := 2,
           attempts := [(- 100, match_fonbet, Some (TelegramRetryAfter 5))]\<rparr>
   \<and> send_predictions_to_subscribed_users (bot_rate_limited 0) (world_of db_two_users 1000)
       (Some [match_fonbet])
     = (world_of db_two_users 1000)
         \<lparr>api_calls := 1, attempts := [(7, match_fonbet, Some (TelegramRetryAfter 5))]\<rparr>
   \<and> send_message (bot_rate_limited 1) 2 (- 100) = None
   \<and> send_message (bot_rate_limited 0) 1 7 = None"
  by code_simp

subsection \<open>Commit of the fingerprint\<close>

text \<open>When the fan-out of a queued prediction returns, the second loop of the pass records
  the key, whatever the fan-out did; for a prediction without bookmaker the fan-out returns
  at once.\<close>

lemma is_prediction_sent_iff:
  "is_prediction_sent d k \<longleftrightarrow> k \<in> fst ` set (sent_predictions d)"
  by (force simp: is_prediction_sent_def filter_empty_conv)

lemma add_sent_prediction_sent:
  "is_prediction_sent (add_sent_prediction d now k) k' \<longleftrightarrow> k' = k \<or> is_prediction_sent d k'"
  by (auto simp: is_prediction_sent_iff add_sent_prediction_def)

lemma send_one_commits:
  "fst (send_prediction_to_user_and_channel b w (snd kp)) = None \<Longrightarrow>
   is_prediction_sent (db (send_one b w kp)) (fst kp)"
  by (auto simp: send_one_def sleep_def add_sent_prediction_sent split: prod.splits)

lemma send_one_without_bookmaker:
  "strip (bookmaker (snd kp)) = [] \<Longrightarrow>
   send_one b w kp = sleep (w\<lparr>db := add_sent_prediction (db w) (clock w) (fst kp)\<rparr>) 1"
  by (simp add: send_one_def send_prediction_to_user_and_channel_def)

text \<open>
  Claim C1 says that the fingerprint is committed only if a delivery succeeded in the pass,
  and that the empty-bookmaker skip leaves the ledger unchanged. Evaluated on the code: the
  pass over one prediction with an empty bookmaker makes no send and no transport call, and
  the fingerprint is in the ledger afterwards; the next pass, which observes the same match
  with the bookmaker Fonbet on a transport that works, sends nothing.
\<close>

theorem C1_committed_without_delivery:
  "send_predictions_to_subscribed_users bot_ok (world_of db_channel_user 1000)
       (Some [match_fonbet\<lparr>bookmaker := []\<rparr>])
     = (world_of (db_channel_user\<lparr>sent_predictions := [(match_key, 1000)]\<rparr>) 1001)
   \<and> attempts (send_predictions_to_subscribed_users bot_ok
        (send_predictions_to_subscribed_users bot_ok (world_of db_channel_user 1000)
           (Some [match_fonbet\<lparr>bookmaker := []\<rparr>]))
        (Some [match_fonbet])) = []"
  by code_simp

subsection \<open>Expired pause\<close>

text \<open>A pause check on a user whose pause has ended answers \<open>False\<close> and clears the flag;
  the users a pass visits are those whose flag is already clear.\<close>

lemma is_user_paused_expired:
  assumes "get_user d uid = Some u" and "pause_until u = Some pu" and "pu < now"
  shows "fst (is_user_paused d now uid) = False
    \<and> map_option is_paused (get_user (snd (is_user_paused d now uid)) uid) = Some False"
  using assms get_user_id [OF assms(1)]
  by (simp add: is_user_paused_def get_user_unpause)

lemma active_users_unpaused: "u \<in> set (get_all_active_users d now) \<Longrightarrow> \<not> is_paused u"
  by (simp add: get_all_active_users_def)

text \<open>The sweep compares text: a pause that ended earlier on the same day is kept.\<close>

lemma sweep_keeps_same_day_pause:
  "check_and_resume_users db_expired_pause 1000 = db_expired_pause"
  by code_simp

text \<open>
  Claim C3 says that a user whose \<open>pause_until\<close> lies in the past is eligible in the next
  pass even if the sweep has not run. Evaluated on the code: for subscriber 7, paused until
  instant 500, at instant 1000 the pause check answers \<open>False\<close> and clears the flag, but the
  pass never makes that check: \<open>get_all_active_users\<close> leaves the user out, nothing is sent
  and the flag stays set.
\<close>

theorem C3_expired_pause_excluded_by_pass:
  "map_option pause_until (get_user db_expired_pause 7) = Some (Some 500)
   \<and> fst (is_user_paused db_expired_pause 1000 7) = False
   \<and> map_option is_paused (get_user (snd (is_user_paused db_expired_pause 1000 7)) 7)
       = Some False
   \<and> get_all_active_users db_expired_pause 1000 = []
   \<and> attempts (send_predictions_to_subscribed_users bot_ok (world_of db_expired_pause 1000)
        (Some [match_fonbet])) = []
   \<and> map_option is_paused
        (get_user (db (send_predictions_to_subscribed_users bot_ok
                         (world_of db_expired_pause 1000) (Some [match_fonbet]))) 7) = Some True"
  by code_simp

subsection \<open>Deduplication\<close>

text \<open>Every step of a pass only adds sends to the log, each for the prediction the step
  works on; so a pass makes no send for a fingerprint that is in the ledger when the pass
  starts.\<close>

lemma extends_with_iff:
  "extends_with P w w' \<longleftrightarrow>
     (\<exists>xs. attempts w' = attempts w @ xs \<and> (\<forall>a \<in> set xs. P (fst (snd a))))"
proof
  assume "extends_with P w w'"
  then have "attempts w' = attempts w @ attempts_since w w'"
    and "\<forall>a \<in> set (attempts_since w w'). P (fst (snd a))"
    by (auto simp: extends_with_def attempts_since_def list_all_iff
        intro: append_take_drop_id [symmetric, THEN trans])
  then show "\<exists>xs. attempts w' = attempts w @ xs \<and> (\<forall>a \<in> set xs. P (fst (snd a)))"
    by blast
next
  assume "\<exists>xs. attempts w' = attempts w @ xs \<and> (\<forall>a \<in> set xs. P (fst (snd a)))"
  then show "extends_with P w w'"
    by (auto simp: extends_with_def attempts_since_def list_all_iff)
qed

lemma extends_refl: "attempts w' = attempts w \<Longrightarrow> extends_with P w w'"
  by (simp add: extends_with_iff)

lemma extends_trans:
  "extends_with P w w' \<Longrightarrow> extends_with P w' w'' \<Longrightarrow> extends_with P w w''"
  by (auto simp: extends_with_iff)

lemma extends_send_to_channel:
  assumes "P p"
  shows "extends_with P w (snd (send_to_channel b p w ch))"
  using assms
  by (simp add: extends_with_iff send_to_channel_def Let_def bot_get_chat_member_def
      bot_send_def split: sum.splits option.splits)

lemma extends_send_to_user:
  assumes "P p"
  shows "extends_with P w (snd (send_to_user b p limits w u))"
  using assms
  by (simp add: extends_with_iff send_to_user_def Let_def split_beta bot_send_def
      split: option.splits)

lemma extends_channel_loop:
  assumes "P p"
  shows "extends_with P w (snd (channel_loop b p chs t w))"
proof (induction chs arbitrary: t w)
  case Nil
  show ?case by (simp add: extends_refl)
next
  case (Cons ch rest)
  obtain out w1 where step: "send_to_channel b p w ch = (out, w1)"
    by (cases "send_to_channel b p w ch")
  with assms extends_send_to_channel [where P = P and p = p and w = w and b = b and ch = ch]
  have "extends_with P w w1"
    by simp
  with Cons.IH [where t = "count out t" and w = w1] step show ?case
    by (auto intro: extends_trans)
qed

lemma extends_user_loop:
  assumes "P p"
  shows "extends_with P w (snd (user_loop b p limits us t w))"
proof (induction us arbitrary: t w)
  case Nil
  show ?case by (simp add: extends_refl)
next
  case (Cons u rest)
  obtain out w1 where step: "send_to_user b p limits w u = (out, w1)"
    by (cases "send_to_user b p limits w u")
  with assms
    extends_send_to_user [where P = P and p = p and w = w and b = b and limits = limits and u = u]
  have "extends_with P w w1"
    by simp
  with Cons.IH [where t = "count out t" and w = w1] step show ?case
    by (auto intro: extends_trans)
qed

lemma extends_send_prediction:
  assumes "P p"
  shows "extends_with P w (snd (send_prediction_to_user_and_channel b w p))"
proof -
  define w1 where "w1 = snd (channel_loop b p (get_all_channels (db w)) no_tally w)"
  have a: "extends_with P w w1"
    unfolding w1_def using assms by (rule extends_channel_loop)
  have b': "extends_with P w (snd (user_loop b p limits us t w1))" for limits us t
    using a assms extends_user_loop [where P = P and p = p] extends_trans by blast
  then have c: "extends_with P w ((snd (user_loop b p limits us t w1))\<lparr>db := d\<rparr>)" for limits us t d
    by (simp add: extends_with_iff)
  show ?thesis
    using a b' c
    by (simp add: send_prediction_to_user_and_channel_def Let_def split_beta w1_def extends_refl
        split: sum.splits)
qed

lemma extends_send_one:
  assumes "P (snd kp)"
  shows "extends_with P w (send_one b w kp)"
  using assms extends_send_prediction [where P = P and p = "snd kp" and w = w and b = b]
  by (auto simp: send_one_def sleep_def extends_with_iff split: prod.splits option.splits)

lemma extends_send_queued:
  assumes "\<forall>kp \<in> set queue. P (snd kp)"
  shows "extends_with P w (send_queued b queue w)"
  using assms
proof (induction queue arbitrary: w)
  case Nil
  show ?case by (simp add: extends_refl)
next
  case (Cons kp rest)
  then have "extends_with P w (send_one b w kp)"
    by (simp add: extends_send_one)
  moreover have "extends_with P (send_one b w kp) (send_queued b rest (send_one b w kp))"
    using Cons by simp
  ultimately show ?case
    by (auto intro: extends_trans)
qed

lemma recorded_fingerprint_suppressed:
  assumes "is_prediction_sent (db w) F"
  shows "attempts (send_predictions_to_subscribed_users b w predictions)
           = attempts w @ attempts_since w (send_predictions_to_subscribed_users b w predictions)
    \<and> (\<forall>a \<in> set (attempts_since w (send_predictions_to_subscribed_users b w predictions)).
          get_match_key (fst (snd a)) \<noteq> F)"
proof -
  define w' where "w' = send_predictions_to_subscribed_users b w predictions"
  have grown: "extends_with (\<lambda>p. get_match_key p \<noteq> F) w w'"
  proof (cases predictions)
    case None
    then show ?thesis
      by (simp add: w'_def send_predictions_to_subscribed_users_def extends_refl)
  next
    case (Some ps)
    have "\<forall>kp \<in> set (new_predictions_to_send (db w) ps). get_match_key (snd kp) \<noteq> F"
      using assms by (auto simp: new_predictions_to_send_def)
    then have "extends_with (\<lambda>p. get_match_key p \<noteq> F) w
        (send_queued b (new_predictions_to_send (db w) ps) w)"
      by (rule extends_send_queued)
    with Some show ?thesis
      by (simp add: w'_def send_predictions_to_subscribed_users_def extends_refl)
  qed
  then have "take (length (attempts w)) (attempts w') = attempts w"
    and only: "\<forall>a \<in> set (attempts_since w w'). get_match_key (fst (snd a)) \<noteq> F"
    by (simp_all add: extends_with_def list_all_iff)
  then have "attempts w' = attempts w @ attempts_since w w'"
    by (metis append_take_drop_id attempts_since_def)
  with only show ?thesis
    by (simp add: w'_def)
qed

text \<open>
  Claim C2 says that once a distribution call for a fingerprint has delivered and the
  fingerprint is recorded, no later distribution call for a prediction with that
  fingerprint sends anything. Evaluated on the code: the scraper returns the Fonbet and the
  Winline prediction of one match in one batch; both are queued before anything is sent;
  the first is delivered to the channel and the fingerprint recorded; the second is sent to
  the channel all the same.
\<close>

theorem C2_same_batch_both_sent:
  "get_match_key match_fonbet = match_key
   \<and> get_match_key match_winline = match_key
   \<and> attempts (send_one bot_ok (world_of db_channel 1000) (match_key, match_fonbet))
       = [(- 100, match_fonbet, None)]
   \<and> is_prediction_sent
        (db (send_one bot_ok (world_of db_channel 1000) (match_key, match_fonbet))) match_key
   \<and> attempts (send_predictions_to_subscribed_users bot_ok (world_of db_channel 1000)
                 (Some [match_fonbet, match_winline]))
       = [(- 100, match_fonbet, None), (- 100, match_winline, None)]"
  by code_simp

end
